theory Spec2Isabelle
  imports Main "HOL-Library.Multiset"
begin

section \<open>Facelet state\<close>

text \<open>
  The program under study is the script of \<^verbatim>\<open>demo.html\<close> as printed in
  \<^verbatim>\<open>TECHNICAL_DOCUMENTATION.md\<close> (lines 1137 to 1783). Its cube is the global
  \<^verbatim>\<open>cubeState\<close>: an object with the six keys \<^verbatim>\<open>'U', 'D', 'F', 'B', 'R', 'L'\<close>, each
  holding an array of nine colour indices.

  The object is a record with one field per key, an array is a list, a colour index is
  a natural number. Every array the program builds has nine entries
  (\<^verbatim>\<open>Array(9).fill(c)\<close>, and element writes at indices below nine), which is
  the predicate \<open>cube_wf\<close> below. On a shorter array JavaScript would read
  \<^verbatim>\<open>undefined\<close> and extend the array on a write; the model does not follow the
  program there, so every statement about a move carries \<open>cube_wf\<close> as a hypothesis,
  and \<open>cube_wf\<close> is shown to hold initially and to be kept by every move.
\<close>

type_synonym face = "nat list"

record cube =
  U :: face
  D :: face
  F :: face
  B :: face
  R :: face
  L :: face

definition face_wf :: "face \<Rightarrow> bool" where
  "face_wf f = (length f = 9)"

definition cube_wf :: "cube \<Rightarrow> bool" where
  "cube_wf s = (face_wf (U s) \<and> face_wf (D s) \<and> face_wf (F s)
                \<and> face_wf (B s) \<and> face_wf (R s) \<and> face_wf (L s))"

text \<open>\<^verbatim>\<open>Array(9).fill(c)\<close>\<close>

definition fill9 :: "nat \<Rightarrow> face" where
  "fill9 c = replicate 9 c"

text \<open>
  The initial value of \<^verbatim>\<open>cubeState\<close> (lines 1150 to 1157), which is also the value
  \<^verbatim>\<open>resetCube\<close> assigns (lines 1667 to 1674) and the local \<^verbatim>\<open>solvedState\<close> of
  \<^verbatim>\<open>checkSolved\<close> (lines 1599 to 1606).
\<close>

definition solvedState :: cube where
  "solvedState = \<lparr> U = fill9 0, D = fill9 1, F = fill9 2, B = fill9 3, R = fill9 4, L = fill9 5 \<rparr>"

text \<open>The facelets of the six faces in the key order of the object, 54 on a well-formed cube.\<close>

definition facelets :: "cube \<Rightarrow> nat list" where
  "facelets s = U s @ D s @ F s @ B s @ R s @ L s"

definition colorCount :: "nat \<Rightarrow> cube \<Rightarrow> nat" where
  "colorCount c s = count_list (facelets s) c"


section \<open>Move engine\<close>

text \<open>\<^verbatim>\<open>rotateFaceletArrayClockwise\<close> and its counter-clockwise sibling (lines 1330 to 1345).\<close>

definition rotateFaceletArrayClockwise :: "face \<Rightarrow> face" where
  "rotateFaceletArrayClockwise faceArray =
     [faceArray ! 6, faceArray ! 3, faceArray ! 0,
      faceArray ! 7, faceArray ! 4, faceArray ! 1,
      faceArray ! 8, faceArray ! 5, faceArray ! 2]"

definition rotateFaceletArrayCounterClockwise :: "face \<Rightarrow> face" where
  "rotateFaceletArrayCounterClockwise faceArray =
     [faceArray ! 2, faceArray ! 5, faceArray ! 8,
      faceArray ! 1, faceArray ! 4, faceArray ! 7,
      faceArray ! 0, faceArray ! 3, faceArray ! 6]"

text \<open>\<^verbatim>\<open>a.slice(i, j)\<close> for \<open>i \<le> j\<close> within the array.\<close>

definition slice :: "nat \<Rightarrow> nat \<Rightarrow> 'a list \<Rightarrow> 'a list" where
  "slice i j xs = take (j - i) (drop i xs)"

text \<open>
  The twelve move symbols are JavaScript strings; the apostrophe of a counter-clockwise
  turn is the character \<open>0x27\<close>.
\<close>

abbreviation sym_U :: string where "sym_U \<equiv> ''U''"
abbreviation sym_U' :: string where "sym_U' \<equiv> [CHR ''U'', CHR 0x27]"
abbreviation sym_D :: string where "sym_D \<equiv> ''D''"
abbreviation sym_D' :: string where "sym_D' \<equiv> [CHR ''D'', CHR 0x27]"
abbreviation sym_R :: string where "sym_R \<equiv> ''R''"
abbreviation sym_R' :: string where "sym_R' \<equiv> [CHR ''R'', CHR 0x27]"
abbreviation sym_L :: string where "sym_L \<equiv> ''L''"
abbreviation sym_L' :: string where "sym_L' \<equiv> [CHR ''L'', CHR 0x27]"
abbreviation sym_F :: string where "sym_F \<equiv> ''F''"
abbreviation sym_F' :: string where "sym_F' \<equiv> [CHR ''F'', CHR 0x27]"
abbreviation sym_B :: string where "sym_B \<equiv> ''B''"
abbreviation sym_B' :: string where "sym_B' \<equiv> [CHR ''B'', CHR 0x27]"

text \<open>
  The branches of the \<^verbatim>\<open>switch\<close> in \<^verbatim>\<open>applyMoveToCubeState\<close> (lines 1351 to 1592),
  one definition per \<^verbatim>\<open>case\<close>. Each branch reads from the old \<^verbatim>\<open>cubeState\<close> only
  and writes to the deep copy \<^verbatim>\<open>newState\<close>, so each is one record update whose
  right-hand sides all mention the old state.
\<close>

text \<open>
  Three statements of the listing are malformed. Line 1469 (case \<^verbatim>\<open>R'\<close>) prints
  \<^verbatim>\<open>newState['D'][5'] = tempRPrime[1];\<close>, line 1529 (case \<^verbatim>\<open>F\<close>) prints
  \<^verbatim>\<open>newState['R'][3'] = tempF[1];\<close> and line 1541 (case \<^verbatim>\<open>F'\<close>) prints
  \<^verbatim>\<open>newState['R'][3'] = cubeState['D'][1];\<close>. The apostrophe after the digit opens a
  string that the line never closes, so a JavaScript parser rejects the script as it is
  printed, and \<^verbatim>\<open>5'\<close> and \<^verbatim>\<open>3'\<close> denote no array index.

  The model does not choose a meaning for these three statements. They carry the same
  misprint and are read the same way; the reading is a parameter with two values: under \<open>AsDigit\<close> the statement writes the element at the
  printed digit (5, 3 and 3), which is what the neighbouring lines (indices 2, 5, 8 and
  0, 3, 6) suggest was meant; under \<open>NoElement\<close> the statement writes none of the nine
  elements. Every other statement of the listing is well formed and is modelled as it is
  printed. A property shown for both readings does not depend on the three statements;
  a property that holds under \<open>AsDigit\<close> only is a property of the listing after the
  three apostrophes are removed, not of the listing.
\<close>

datatype misprint = AsDigit | NoElement

fun malformedWrite :: "misprint \<Rightarrow> 'a list \<Rightarrow> nat \<Rightarrow> 'a \<Rightarrow> 'a list" where
  "malformedWrite AsDigit xs i v = xs[i := v]"
| "malformedWrite NoElement xs i v = xs"

definition case_U :: "cube \<Rightarrow> cube" where
  "case_U cubeState =
     (let tempU = slice 0 3 (F cubeState) in
      cubeState
        \<lparr> U := rotateFaceletArrayClockwise (U cubeState),
          F := (F cubeState)[0 := R cubeState ! 0, 1 := R cubeState ! 1, 2 := R cubeState ! 2],
          R := (R cubeState)[0 := B cubeState ! 0, 1 := B cubeState ! 1, 2 := B cubeState ! 2],
          B := (B cubeState)[0 := L cubeState ! 0, 1 := L cubeState ! 1, 2 := L cubeState ! 2],
          L := (L cubeState)[0 := tempU ! 0, 1 := tempU ! 1, 2 := tempU ! 2] \<rparr>)"

definition case_U' :: "cube \<Rightarrow> cube" where
  "case_U' cubeState =
     (let tempUPrime = slice 0 3 (F cubeState) in
      cubeState
        \<lparr> U := rotateFaceletArrayCounterClockwise (U cubeState),
          F := (F cubeState)[0 := L cubeState ! 0, 1 := L cubeState ! 1, 2 := L cubeState ! 2],
          L := (L cubeState)[0 := B cubeState ! 0, 1 := B cubeState ! 1, 2 := B cubeState ! 2],
          B := (B cubeState)[0 := R cubeState ! 0, 1 := R cubeState ! 1, 2 := R cubeState ! 2],
          R := (R cubeState)[0 := tempUPrime ! 0, 1 := tempUPrime ! 1, 2 := tempUPrime ! 2] \<rparr>)"

definition case_D :: "cube \<Rightarrow> cube" where
  "case_D cubeState =
     (let tempD = slice 6 9 (F cubeState) in
      cubeState
        \<lparr> D := rotateFaceletArrayClockwise (D cubeState),
          F := (F cubeState)[6 := L cubeState ! 6, 7 := L cubeState ! 7, 8 := L cubeState ! 8],
          L := (L cubeState)[6 := B cubeState ! 6, 7 := B cubeState ! 7, 8 := B cubeState ! 8],
          B := (B cubeState)[6 := R cubeState ! 6, 7 := R cubeState ! 7, 8 := R cubeState ! 8],
          R := (R cubeState)[6 := tempD ! 0, 7 := tempD ! 1, 8 := tempD ! 2] \<rparr>)"

definition case_D' :: "cube \<Rightarrow> cube" where
  "case_D' cubeState =
     (let tempDPrime = slice 6 9 (F cubeState) in
      cubeState
        \<lparr> D := rotateFaceletArrayCounterClockwise (D cubeState),
          F := (F cubeState)[6 := R cubeState ! 6, 7 := R cubeState ! 7, 8 := R cubeState ! 8],
          R := (R cubeState)[6 := B cubeState ! 6, 7 := B cubeState ! 7, 8 := B cubeState ! 8],
          B := (B cubeState)[6 := L cubeState ! 6, 7 := L cubeState ! 7, 8 := L cubeState ! 8],
          L := (L cubeState)[6 := tempDPrime ! 0, 7 := tempDPrime ! 1, 8 := tempDPrime ! 2] \<rparr>)"

definition case_R :: "cube \<Rightarrow> cube" where
  "case_R cubeState =
     (let tempR = [F cubeState ! 2, F cubeState ! 5, F cubeState ! 8] in
      cubeState
        \<lparr> R := rotateFaceletArrayClockwise (R cubeState),
          F := (F cubeState)[2 := D cubeState ! 2, 5 := D cubeState ! 5, 8 := D cubeState ! 8],
          D := (D cubeState)[2 := B cubeState ! 6, 5 := B cubeState ! 3, 8 := B cubeState ! 0],
          B := (B cubeState)[0 := U cubeState ! 8, 3 := U cubeState ! 5, 6 := U cubeState ! 2],
          U := (U cubeState)[2 := tempR ! 0, 5 := tempR ! 1, 8 := tempR ! 2] \<rparr>)"

definition case_R' :: "misprint \<Rightarrow> cube \<Rightarrow> cube" where
  "case_R' rd cubeState =
     (let tempRPrime = [F cubeState ! 2, F cubeState ! 5, F cubeState ! 8] in
      cubeState
        \<lparr> R := rotateFaceletArrayCounterClockwise (R cubeState),
          F := (F cubeState)[2 := U cubeState ! 2, 5 := U cubeState ! 5, 8 := U cubeState ! 8],
          U := (U cubeState)[2 := B cubeState ! 6, 5 := B cubeState ! 3, 8 := B cubeState ! 0],
          B := (B cubeState)[0 := D cubeState ! 8, 3 := D cubeState ! 5, 6 := D cubeState ! 2],
          D := (malformedWrite rd ((D cubeState)[2 := tempRPrime ! 0]) 5 (tempRPrime ! 1))
                 [8 := tempRPrime ! 2] \<rparr>)"

definition case_L :: "cube \<Rightarrow> cube" where
  "case_L cubeState =
     (let tempL = [F cubeState ! 0, F cubeState ! 3, F cubeState ! 6] in
      cubeState
        \<lparr> L := rotateFaceletArrayClockwise (L cubeState),
          F := (F cubeState)[0 := U cubeState ! 0, 3 := U cubeState ! 3, 6 := U cubeState ! 6],
          U := (U cubeState)[0 := B cubeState ! 8, 3 := B cubeState ! 5, 6 := B cubeState ! 2],
          B := (B cubeState)[2 := D cubeState ! 6, 5 := D cubeState ! 3, 8 := D cubeState ! 0],
          D := (D cubeState)[0 := tempL ! 0, 3 := tempL ! 1, 6 := tempL ! 2] \<rparr>)"

definition case_L' :: "cube \<Rightarrow> cube" where
  "case_L' cubeState =
     (let tempLPrime = [F cubeState ! 0, F cubeState ! 3, F cubeState ! 6] in
      cubeState
        \<lparr> L := rotateFaceletArrayCounterClockwise (L cubeState),
          F := (F cubeState)[0 := D cubeState ! 0, 3 := D cubeState ! 3, 6 := D cubeState ! 6],
          D := (D cubeState)[0 := B cubeState ! 8, 3 := B cubeState ! 5, 6 := B cubeState ! 2],
          B := (B cubeState)[2 := U cubeState ! 6, 5 := U cubeState ! 3, 8 := U cubeState ! 0],
          U := (U cubeState)[0 := tempLPrime ! 0, 3 := tempLPrime ! 1, 6 := tempLPrime ! 2] \<rparr>)"

definition case_F :: "misprint \<Rightarrow> cube \<Rightarrow> cube" where
  "case_F rd cubeState =
     (let tempF = [U cubeState ! 6, U cubeState ! 7, U cubeState ! 8] in
      cubeState
        \<lparr> F := rotateFaceletArrayClockwise (F cubeState),
          U := (U cubeState)[6 := L cubeState ! 8, 7 := L cubeState ! 5, 8 := L cubeState ! 2],
          L := (L cubeState)[2 := D cubeState ! 0, 5 := D cubeState ! 1, 8 := D cubeState ! 2],
          D := (D cubeState)[0 := R cubeState ! 6, 1 := R cubeState ! 3, 2 := R cubeState ! 0],
          R := (malformedWrite rd ((R cubeState)[0 := tempF ! 0]) 3 (tempF ! 1))
                 [6 := tempF ! 2] \<rparr>)"

definition case_F' :: "misprint \<Rightarrow> cube \<Rightarrow> cube" where
  "case_F' rd cubeState =
     (let tempFPrime = [U cubeState ! 6, U cubeState ! 7, U cubeState ! 8] in
      cubeState
        \<lparr> F := rotateFaceletArrayCounterClockwise (F cubeState),
          U := (U cubeState)[6 := R cubeState ! 0, 7 := R cubeState ! 3, 8 := R cubeState ! 6],
          R := (malformedWrite rd ((R cubeState)[0 := D cubeState ! 2]) 3 (D cubeState ! 1))
                 [6 := D cubeState ! 0],
          D := (D cubeState)[0 := L cubeState ! 2, 1 := L cubeState ! 5, 2 := L cubeState ! 8],
          L := (L cubeState)[2 := tempFPrime ! 2, 5 := tempFPrime ! 1, 8 := tempFPrime ! 0] \<rparr>)"

definition case_B :: "cube \<Rightarrow> cube" where
  "case_B cubeState =
     (let tempB = [U cubeState ! 0, U cubeState ! 1, U cubeState ! 2] in
      cubeState
        \<lparr> B := rotateFaceletArrayClockwise (B cubeState),
          U := (U cubeState)[0 := R cubeState ! 2, 1 := R cubeState ! 5, 2 := R cubeState ! 8],
          R := (R cubeState)[2 := D cubeState ! 8, 5 := D cubeState ! 7, 8 := D cubeState ! 6],
          D := (D cubeState)[6 := L cubeState ! 0, 7 := L cubeState ! 3, 8 := L cubeState ! 6],
          L := (L cubeState)[0 := tempB ! 2, 3 := tempB ! 1, 6 := tempB ! 0] \<rparr>)"

definition case_B' :: "cube \<Rightarrow> cube" where
  "case_B' cubeState =
     (let tempBPrime = [U cubeState ! 0, U cubeState ! 1, U cubeState ! 2] in
      cubeState
        \<lparr> B := rotateFaceletArrayCounterClockwise (B cubeState),
          U := (U cubeState)[0 := L cubeState ! 6, 1 := L cubeState ! 3, 2 := L cubeState ! 0],
          L := (L cubeState)[0 := D cubeState ! 6, 3 := D cubeState ! 7, 6 := D cubeState ! 8],
          D := (D cubeState)[6 := R cubeState ! 8, 7 := R cubeState ! 5, 8 := R cubeState ! 2],
          R := (R cubeState)[2 := tempBPrime ! 0, 5 := tempBPrime ! 1, 8 := tempBPrime ! 2] \<rparr>)"

text \<open>
  \<^verbatim>\<open>applyMoveToCubeState(move)\<close> (lines 1348 to 1594): the global \<^verbatim>\<open>cubeState\<close> is
  passed in and the new value returned. The \<^verbatim>\<open>switch\<close> has no \<^verbatim>\<open>default\<close> branch
  and the function has no \<^verbatim>\<open>throw\<close>: for a string that matches no \<^verbatim>\<open>case\<close> the
  deep copy is assigned back unchanged. The first argument is the reading of the three
  malformed statements; it reaches the branches \<^verbatim>\<open>R'\<close>, \<^verbatim>\<open>F\<close> and \<^verbatim>\<open>F'\<close> only.
\<close>

definition applyMoveToCubeState :: "misprint \<Rightarrow> string \<Rightarrow> cube \<Rightarrow> cube" where
  "applyMoveToCubeState rd move cubeState =
     (if move = sym_U then case_U cubeState
      else if move = sym_U' then case_U' cubeState
      else if move = sym_D then case_D cubeState
      else if move = sym_D' then case_D' cubeState
      else if move = sym_R then case_R cubeState
      else if move = sym_R' then case_R' rd cubeState
      else if move = sym_L then case_L cubeState
      else if move = sym_L' then case_L' cubeState
      else if move = sym_F then case_F rd cubeState
      else if move = sym_F' then case_F' rd cubeState
      else if move = sym_B then case_B cubeState
      else if move = sym_B' then case_B' cubeState
      else cubeState)"

text \<open>The twelve symbols the \<^verbatim>\<open>switch\<close> knows, and the symbol of the opposite turn.\<close>

definition validMoves :: "string list" where
  "validMoves = [sym_U, sym_U', sym_D, sym_D', sym_R, sym_R',
                 sym_L, sym_L', sym_F, sym_F', sym_B, sym_B']"

definition inverseMove :: "string \<Rightarrow> string" where
  "inverseMove move =
     (if move = sym_U then sym_U' else if move = sym_U' then sym_U
      else if move = sym_D then sym_D' else if move = sym_D' then sym_D
      else if move = sym_R then sym_R' else if move = sym_R' then sym_R
      else if move = sym_L then sym_L' else if move = sym_L' then sym_L
      else if move = sym_F then sym_F' else if move = sym_F' then sym_F
      else if move = sym_B then sym_B' else if move = sym_B' then sym_B
      else move)"

text \<open>
  The symbols whose own branch is well formed in the listing, and those whose branch and
  whose opposite branch both are.
\<close>

definition wellFormedMoves :: "string list" where
  "wellFormedMoves = [sym_U, sym_U', sym_D, sym_D', sym_R, sym_L, sym_L', sym_B, sym_B']"

definition wellFormedPairs :: "string list" where
  "wellFormedPairs = [sym_U, sym_U', sym_D, sym_D', sym_L, sym_L', sym_B, sym_B']"

text \<open>The centre facelets (index 4) of the six faces, in the key order of the object.\<close>

definition centers :: "cube \<Rightarrow> nat list" where
  "centers s = [U s ! 4, D s ! 4, F s ! 4, B s ! 4, R s ! 4, L s ! 4]"

text \<open>
  The legal states of the specification: what the move engine reaches from the solved
  state with the twelve symbols.
\<close>

inductive legal :: "misprint \<Rightarrow> cube \<Rightarrow> bool" for rd :: misprint where
  legal_solved: "legal rd solvedState"
| legal_move: "legal rd s \<Longrightarrow> m \<in> set validMoves \<Longrightarrow> legal rd (applyMoveToCubeState rd m s)"


section \<open>Solved-state check\<close>

text \<open>
  \<^verbatim>\<open>checkSolved\<close> (lines 1597 to 1616) walks the six keys of \<^verbatim>\<open>cubeState\<close> and the
  indices 0 to 8, and returns false at the first entry that differs (\<^verbatim>\<open>!==\<close>) from the
  entry of the local \<^verbatim>\<open>solvedState\<close>. An index beyond the end of an array reads
  \<^verbatim>\<open>undefined\<close>, which differs from every number.
\<close>

definition faceEquals :: "face \<Rightarrow> face \<Rightarrow> bool" where
  "faceEquals a b = list_all (\<lambda>i. i < length a \<and> a ! i = b ! i) [0..<9]"

definition checkSolved :: "cube \<Rightarrow> bool" where
  "checkSolved cubeState =
     (faceEquals (U cubeState) (U solvedState) \<and> faceEquals (D cubeState) (D solvedState)
      \<and> faceEquals (F cubeState) (F solvedState) \<and> faceEquals (B cubeState) (B solvedState)
      \<and> faceEquals (R cubeState) (R solvedState) \<and> faceEquals (L cubeState) (L solvedState))"

text \<open>The criterion of the specification: every facelet of a face equals the centre of that face.\<close>

definition faceUniform :: "face \<Rightarrow> bool" where
  "faceUniform f = list_all (\<lambda>i. f ! i = f ! 4) [0..<9]"

definition centerRelativeSolved :: "cube \<Rightarrow> bool" where
  "centerRelativeSolved s =
     (faceUniform (U s) \<and> faceUniform (D s) \<and> faceUniform (F s)
      \<and> faceUniform (B s) \<and> faceUniform (R s) \<and> faceUniform (L s))"


section \<open>Session: scramble, solve, reset, manual move\<close>

text \<open>
  The globals of the script (lines 1139 to 1157) that the control functions read and
  write. Rendering, the animation and the delays between moves do not touch them and
  are left out; each \<^verbatim>\<open>async\<close> function is modelled from its call to its completion.
\<close>

record session =
  cubeState :: cube
  moveHistory :: "string list"
  isSolved :: bool
  isAnimating :: bool

definition initialSession :: session where
  "initialSession = \<lparr> cubeState = solvedState, moveHistory = [], isSolved = True, isAnimating = False \<rparr>"

text \<open>The body of the two \<^verbatim>\<open>for (const move of ...)\<close> loops: log the move, apply it.\<close>

fun playMoves :: "misprint \<Rightarrow> string list \<Rightarrow> session \<Rightarrow> session" where
  "playMoves rd [] s = s"
| "playMoves rd (move # rest) s =
     playMoves rd rest
       (s \<lparr> moveHistory := moveHistory s @ [move],
            cubeState := applyMoveToCubeState rd move (cubeState s) \<rparr>)"

definition scrambleSequence :: "string list" where
  "scrambleSequence = [sym_R, sym_U, sym_R', sym_U', sym_F, sym_R, sym_F', sym_R',
                       sym_U, sym_R, sym_U', sym_R', sym_F', sym_U', sym_F]"

definition scrambleCube :: "misprint \<Rightarrow> session \<Rightarrow> session" where
  "scrambleCube rd s =
     (if isAnimating s then s
      else
        let s1 = s \<lparr> isAnimating := True, isSolved := False, moveHistory := [] \<rparr>;
            s2 = playMoves rd scrambleSequence s1;
            s3 = s2 \<lparr> isAnimating := False \<rparr>
        in s3 \<lparr> isSolved := checkSolved (cubeState s3) \<rparr>)"

definition solutionSequence :: "string list" where
  "solutionSequence = rev [sym_F', sym_U, sym_F, sym_R, sym_U, sym_R', sym_U, sym_R, sym_F,
                           sym_R', sym_F', sym_U, sym_R, sym_U', sym_R', sym_F', sym_U', sym_F]"

definition solveCube :: "misprint \<Rightarrow> session \<Rightarrow> session" where
  "solveCube rd s =
     (if isAnimating s \<or> isSolved s then s
      else
        let s1 = s \<lparr> isAnimating := True \<rparr>;
            s2 = playMoves rd solutionSequence s1;
            s3 = s2 \<lparr> isSolved := checkSolved (cubeState s2) \<rparr>
        in s3 \<lparr> isAnimating := False \<rparr>)"

definition resetCube :: "session \<Rightarrow> session" where
  "resetCube s =
     (if isAnimating s then s
      else s \<lparr> cubeState := solvedState, moveHistory := [], isSolved := True \<rparr>)"

text \<open>
  How a call of a control function ends: it returns, or it throws. \<^verbatim>\<open>applyMove\<close>
  (lines 1683 to 1695) and everything it calls contain no \<^verbatim>\<open>throw\<close>, so the model
  below never builds \<open>Thrown\<close>.
\<close>

datatype 'a completion = Returned 'a | Thrown string

definition applyMove :: "misprint \<Rightarrow> string \<Rightarrow> session \<Rightarrow> session completion" where
  "applyMove rd move s =
     (if isAnimating s then Returned s
      else
        let s1 = s \<lparr> isAnimating := True, isSolved := False, moveHistory := moveHistory s @ [move] \<rparr>;
            s2 = s1 \<lparr> cubeState := applyMoveToCubeState rd move (cubeState s1) \<rparr>;
            s3 = s2 \<lparr> isAnimating := False \<rparr>
        in Returned (s3 \<lparr> isSolved := checkSolved (cubeState s3) \<rparr>))"

text \<open>
  Two fixed states used as test inputs: a mixed cube (the state the fixed scramble
  leaves under the reading \<open>AsDigit\<close>), and a cube whose faces are each of one colour,
  with the colours of \<^verbatim>\<open>U\<close> and \<^verbatim>\<open>D\<close> exchanged.
\<close>

definition scrambledState :: cube where
  "scrambledState =
     \<lparr> U = [0, 0, 0, 2, 0, 4, 2, 4, 3], D = [1, 1, 4, 1, 1, 0, 1, 1, 2],
       F = [4, 1, 5, 2, 2, 5, 2, 2, 3], B = [2, 4, 4, 3, 3, 3, 4, 3, 3],
       R = [0, 2, 5, 0, 4, 4, 1, 3, 0], L = [3, 0, 1, 5, 5, 5, 5, 5, 5] \<rparr>"

text \<open>The cube the fixed scramble leaves under the reading \<open>NoElement\<close>.\<close>

definition scrambledStateNoElement :: cube where
  "scrambledStateNoElement =
     \<lparr> U = [0, 0, 0, 2, 0, 4, 2, 4, 3], D = [1, 4, 4, 1, 1, 3, 1, 1, 2],
       F = [4, 3, 5, 2, 2, 5, 2, 2, 3], B = [2, 4, 4, 3, 3, 3, 4, 3, 3],
       R = [0, 2, 5, 4, 4, 4, 1, 4, 0], L = [3, 3, 1, 5, 5, 5, 5, 5, 5] \<rparr>"

definition recoloredState :: cube where
  "recoloredState =
     \<lparr> U = fill9 1, D = fill9 0, F = fill9 2, B = fill9 3, R = fill9 4, L = fill9 5 \<rparr>"

text \<open>Every colour index from 0 to 5 is on exactly nine of the facelets.\<close>

definition colorBalanced :: "cube \<Rightarrow> bool" where
  "colorBalanced s = list_all (\<lambda>c. colorCount c s = 9) [0..<6]"


section \<open>Auxiliary facts\<close>

lemma upt_0_9: "[0..<9] = [0, 1, 2, 3, 4, 5, 6, 7, 8]"
  by (simp add: upt_rec)


lemma fill9_explicit: "fill9 c = [c, c, c, c, c, c, c, c, c]"
  by (simp add: fill9_def eval_nat_numeral)

lemma face_wf_explicit:
  "face_wf f \<Longrightarrow> \<exists>a0 a1 a2 a3 a4 a5 a6 a7 a8. f = [a0, a1, a2, a3, a4, a5, a6, a7, a8]"
  by (auto simp: face_wf_def eval_nat_numeral length_Suc_conv)

text \<open>A well-formed cube is a record of six explicit nine-element lists.\<close>

lemma cube_wf_cases [consumes 1]:
  assumes "cube_wf s"
  obtains u0 u1 u2 u3 u4 u5 u6 u7 u8 d0 d1 d2 d3 d4 d5 d6 d7 d8
          f0 f1 f2 f3 f4 f5 f6 f7 f8 b0 b1 b2 b3 b4 b5 b6 b7 b8
          r0 r1 r2 r3 r4 r5 r6 r7 r8 l0 l1 l2 l3 l4 l5 l6 l7 l8
  where "s = \<lparr> U = [u0, u1, u2, u3, u4, u5, u6, u7, u8],
                D = [d0, d1, d2, d3, d4, d5, d6, d7, d8],
                F = [f0, f1, f2, f3, f4, f5, f6, f7, f8],
                B = [b0, b1, b2, b3, b4, b5, b6, b7, b8],
                R = [r0, r1, r2, r3, r4, r5, r6, r7, r8],
                L = [l0, l1, l2, l3, l4, l5, l6, l7, l8] \<rparr>"
proof -
  from assms have w: "face_wf (U s)" "face_wf (D s)" "face_wf (F s)"
    "face_wf (B s)" "face_wf (R s)" "face_wf (L s)"
    by (simp_all add: cube_wf_def)
  from w(1) obtain u0 u1 u2 u3 u4 u5 u6 u7 u8 where u: "U s = [u0, u1, u2, u3, u4, u5, u6, u7, u8]"
    using face_wf_explicit by blast
  from w(2) obtain d0 d1 d2 d3 d4 d5 d6 d7 d8 where d: "D s = [d0, d1, d2, d3, d4, d5, d6, d7, d8]"
    using face_wf_explicit by blast
  from w(3) obtain f0 f1 f2 f3 f4 f5 f6 f7 f8 where f: "F s = [f0, f1, f2, f3, f4, f5, f6, f7, f8]"
    using face_wf_explicit by blast
  from w(4) obtain b0 b1 b2 b3 b4 b5 b6 b7 b8 where b: "B s = [b0, b1, b2, b3, b4, b5, b6, b7, b8]"
    using face_wf_explicit by blast
  from w(5) obtain r0 r1 r2 r3 r4 r5 r6 r7 r8 where r: "R s = [r0, r1, r2, r3, r4, r5, r6, r7, r8]"
    using face_wf_explicit by blast
  from w(6) obtain l0 l1 l2 l3 l4 l5 l6 l7 l8 where l: "L s = [l0, l1, l2, l3, l4, l5, l6, l7, l8]"
    using face_wf_explicit by blast
  have "s = \<lparr> U = [u0, u1, u2, u3, u4, u5, u6, u7, u8],
                D = [d0, d1, d2, d3, d4, d5, d6, d7, d8],
                F = [f0, f1, f2, f3, f4, f5, f6, f7, f8],
                B = [b0, b1, b2, b3, b4, b5, b6, b7, b8],
                R = [r0, r1, r2, r3, r4, r5, r6, r7, r8],
                L = [l0, l1, l2, l3, l4, l5, l6, l7, l8] \<rparr>"
    using u d f b r l by (cases s) simp
  then show thesis
    by (rule that)
qed

lemmas move_defs = case_U_def case_U'_def case_D_def case_D'_def case_R_def case_R'_def
  case_L_def case_L'_def case_F_def case_F'_def case_B_def case_B'_def
  rotateFaceletArrayClockwise_def rotateFaceletArrayCounterClockwise_def slice_def

lemma solvedState_explicit:
  "solvedState = \<lparr> U = [0, 0, 0, 0, 0, 0, 0, 0, 0], D = [1, 1, 1, 1, 1, 1, 1, 1, 1],
                    F = [2, 2, 2, 2, 2, 2, 2, 2, 2], B = [3, 3, 3, 3, 3, 3, 3, 3, 3],
                    R = [4, 4, 4, 4, 4, 4, 4, 4, 4], L = [5, 5, 5, 5, 5, 5, 5, 5, 5] \<rparr>"
  by (simp add: solvedState_def fill9_explicit)

lemma solvedState_wf: "cube_wf solvedState"
  by (simp add: solvedState_explicit cube_wf_def face_wf_def)

lemma scrambledState_wf: "cube_wf scrambledState"
  by (simp add: scrambledState_def cube_wf_def face_wf_def)

lemma recoloredState_wf: "cube_wf recoloredState"
  by (simp add: recoloredState_def fill9_explicit cube_wf_def face_wf_def)


subsection \<open>The dispatch on the move symbol\<close>

lemma apply_simps:
  "applyMoveToCubeState rd sym_U s = case_U s"
  "applyMoveToCubeState rd sym_U' s = case_U' s"
  "applyMoveToCubeState rd sym_D s = case_D s"
  "applyMoveToCubeState rd sym_D' s = case_D' s"
  "applyMoveToCubeState rd sym_R s = case_R s"
  "applyMoveToCubeState rd sym_R' s = case_R' rd s"
  "applyMoveToCubeState rd sym_L s = case_L s"
  "applyMoveToCubeState rd sym_L' s = case_L' s"
  "applyMoveToCubeState rd sym_F s = case_F rd s"
  "applyMoveToCubeState rd sym_F' s = case_F' rd s"
  "applyMoveToCubeState rd sym_B s = case_B s"
  "applyMoveToCubeState rd sym_B' s = case_B' s"
  by (simp_all add: applyMoveToCubeState_def)

lemma inverseMove_simps:
  "inverseMove sym_U = sym_U'"
  "inverseMove sym_U' = sym_U"
  "inverseMove sym_D = sym_D'"
  "inverseMove sym_D' = sym_D"
  "inverseMove sym_R = sym_R'"
  "inverseMove sym_R' = sym_R"
  "inverseMove sym_L = sym_L'"
  "inverseMove sym_L' = sym_L"
  "inverseMove sym_F = sym_F'"
  "inverseMove sym_F' = sym_F"
  "inverseMove sym_B = sym_B'"
  "inverseMove sym_B' = sym_B"
  by (simp_all add: inverseMove_def)

lemma validMoves_cases:
  "m \<in> set validMoves \<longleftrightarrow>
     m = sym_U \<or> m = sym_U' \<or> m = sym_D \<or> m = sym_D' \<or> m = sym_R \<or> m = sym_R'
     \<or> m = sym_L \<or> m = sym_L' \<or> m = sym_F \<or> m = sym_F' \<or> m = sym_B \<or> m = sym_B'"
  by (simp add: validMoves_def)

lemma apply_invalid: "m \<notin> set validMoves \<Longrightarrow> applyMoveToCubeState rd m s = s"
  by (simp add: validMoves_cases applyMoveToCubeState_def)

subsection \<open>Each branch on an explicit cube\<close>

text \<open>
  The nine well-formed branches first, then the three with a malformed statement: under
  both readings where the fact does not depend on it, under \<open>AsDigit\<close> where it does.
\<close>

lemma case_wf:
  assumes "cube_wf s"
  shows
    "cube_wf (case_U s)"
    "cube_wf (case_U' s)"
    "cube_wf (case_D s)"
    "cube_wf (case_D' s)"
    "cube_wf (case_R s)"
    "cube_wf (case_L s)"
    "cube_wf (case_L' s)"
    "cube_wf (case_B s)"
    "cube_wf (case_B' s)"
  using assms by (erule_tac [!] cube_wf_cases) (simp_all add: move_defs cube_wf_def face_wf_def)

lemma case_wf_malformed:
  "cube_wf s \<Longrightarrow> cube_wf (case_R' rd s)"
  "cube_wf s \<Longrightarrow> cube_wf (case_F rd s)"
  "cube_wf s \<Longrightarrow> cube_wf (case_F' rd s)"
  by (cases rd; erule cube_wf_cases; simp add: move_defs cube_wf_def face_wf_def)+

lemma case_centers:
  assumes "cube_wf s"
  shows
    "centers (case_U s) = centers s"
    "centers (case_U' s) = centers s"
    "centers (case_D s) = centers s"
    "centers (case_D' s) = centers s"
    "centers (case_R s) = centers s"
    "centers (case_L s) = centers s"
    "centers (case_L' s) = centers s"
    "centers (case_B s) = centers s"
    "centers (case_B' s) = centers s"
  using assms by (erule_tac [!] cube_wf_cases) (simp_all add: move_defs centers_def)

lemma case_centers_malformed:
  "cube_wf s \<Longrightarrow> centers (case_R' rd s) = centers s"
  "cube_wf s \<Longrightarrow> centers (case_F rd s) = centers s"
  "cube_wf s \<Longrightarrow> centers (case_F' rd s) = centers s"
  by (cases rd; erule cube_wf_cases; simp add: move_defs centers_def)+

lemma case_inverse:
  assumes "cube_wf s"
  shows
    "case_U' (case_U s) = s"
    "case_U (case_U' s) = s"
    "case_D' (case_D s) = s"
    "case_D (case_D' s) = s"
    "case_L' (case_L s) = s"
    "case_L (case_L' s) = s"
    "case_B' (case_B s) = s"
    "case_B (case_B' s) = s"
  using assms by (erule_tac [!] cube_wf_cases) (simp_all add: move_defs)

lemma case_inverse_AsDigit:
  assumes "cube_wf s"
  shows
    "case_R' AsDigit (case_R s) = s"
    "case_R (case_R' AsDigit s) = s"
    "case_F' AsDigit (case_F AsDigit s) = s"
    "case_F AsDigit (case_F' AsDigit s) = s"
  using assms by (erule_tac [!] cube_wf_cases) (simp_all add: move_defs)

lemma case_order4:
  assumes "cube_wf s"
  shows
    "case_U (case_U (case_U (case_U s))) = s"
    "case_U' (case_U' (case_U' (case_U' s))) = s"
    "case_D (case_D (case_D (case_D s))) = s"
    "case_D' (case_D' (case_D' (case_D' s))) = s"
    "case_R (case_R (case_R (case_R s))) = s"
    "case_L (case_L (case_L (case_L s))) = s"
    "case_L' (case_L' (case_L' (case_L' s))) = s"
    "case_B (case_B (case_B (case_B s))) = s"
    "case_B' (case_B' (case_B' (case_B' s))) = s"
  using assms by (erule_tac [!] cube_wf_cases) (simp_all add: move_defs)

lemma case_order4_AsDigit:
  assumes "cube_wf s"
  shows
    "case_R' AsDigit (case_R' AsDigit (case_R' AsDigit (case_R' AsDigit s))) = s"
    "case_F AsDigit (case_F AsDigit (case_F AsDigit (case_F AsDigit s))) = s"
    "case_F' AsDigit (case_F' AsDigit (case_F' AsDigit (case_F' AsDigit s))) = s"
  using assms by (erule_tac [!] cube_wf_cases) (simp_all add: move_defs)

lemma case_mset:
  assumes "cube_wf s"
  shows
    "mset (facelets (case_U s)) = mset (facelets s)"
    "mset (facelets (case_U' s)) = mset (facelets s)"
    "mset (facelets (case_D s)) = mset (facelets s)"
    "mset (facelets (case_D' s)) = mset (facelets s)"
    "mset (facelets (case_R s)) = mset (facelets s)"
    "mset (facelets (case_L s)) = mset (facelets s)"
    "mset (facelets (case_L' s)) = mset (facelets s)"
    "mset (facelets (case_B s)) = mset (facelets s)"
    "mset (facelets (case_B' s)) = mset (facelets s)"
  using assms by (erule_tac [!] cube_wf_cases) (simp_all add: move_defs facelets_def)

lemma case_mset_AsDigit:
  assumes "cube_wf s"
  shows
    "mset (facelets (case_R' AsDigit s)) = mset (facelets s)"
    "mset (facelets (case_F AsDigit s)) = mset (facelets s)"
    "mset (facelets (case_F' AsDigit s)) = mset (facelets s)"
  using assms by (erule_tac [!] cube_wf_cases) (simp_all add: move_defs facelets_def)

subsection \<open>The move engine on well-formed cubes\<close>

lemma wellFormedMoves_cases:
  "m \<in> set wellFormedMoves \<longleftrightarrow>
     m = sym_U \<or> m = sym_U' \<or> m = sym_D \<or> m = sym_D' \<or> m = sym_R
     \<or> m = sym_L \<or> m = sym_L' \<or> m = sym_B \<or> m = sym_B'"
  by (simp add: wellFormedMoves_def)

lemma wellFormedPairs_cases:
  "m \<in> set wellFormedPairs \<longleftrightarrow>
     m = sym_U \<or> m = sym_U' \<or> m = sym_D \<or> m = sym_D'
     \<or> m = sym_L \<or> m = sym_L' \<or> m = sym_B \<or> m = sym_B'"
  by (simp add: wellFormedPairs_def)

lemma apply_wf: "cube_wf s \<Longrightarrow> cube_wf (applyMoveToCubeState rd m s)"
  by (cases "m \<in> set validMoves")
     (auto simp: validMoves_cases apply_simps case_wf case_wf_malformed apply_invalid)

lemma apply_centers:
  "cube_wf s \<Longrightarrow> centers (applyMoveToCubeState rd m s) = centers s"
  by (cases "m \<in> set validMoves")
     (auto simp: validMoves_cases apply_simps case_centers case_centers_malformed apply_invalid)

lemma legal_wf: "legal rd s \<Longrightarrow> cube_wf s"
  by (induction rule: legal.induct) (simp_all add: solvedState_wf apply_wf)

lemma legal_centers: "legal rd s \<Longrightarrow> centers s = [0, 1, 2, 3, 4, 5]"
proof (induction rule: legal.induct)
  case legal_solved
  show ?case
    by (simp add: centers_def solvedState_explicit)
next
  case (legal_move s m)
  then show ?case
    by (simp add: apply_centers legal_wf)
qed

text \<open>
  The group laws. They hold for the symbols with well-formed branches whichever way the
  three malformed statements are read, and for all twelve symbols under \<open>AsDigit\<close>.
\<close>

lemma inverse_law_wellFormedPairs:
  "cube_wf s \<Longrightarrow> m \<in> set wellFormedPairs \<Longrightarrow>
     applyMoveToCubeState rd (inverseMove m) (applyMoveToCubeState rd m s) = s"
  by (auto simp: wellFormedPairs_cases apply_simps inverseMove_simps case_inverse)

lemma inverse_law_AsDigit:
  "cube_wf s \<Longrightarrow> m \<in> set validMoves \<Longrightarrow>
     applyMoveToCubeState AsDigit (inverseMove m) (applyMoveToCubeState AsDigit m s) = s"
  by (auto simp: validMoves_cases apply_simps inverseMove_simps case_inverse case_inverse_AsDigit)

lemma fourth_power_wellFormedMoves:
  "cube_wf s \<Longrightarrow> m \<in> set wellFormedMoves \<Longrightarrow>
     applyMoveToCubeState rd m (applyMoveToCubeState rd m
       (applyMoveToCubeState rd m (applyMoveToCubeState rd m s))) = s"
  by (auto simp: wellFormedMoves_cases apply_simps case_order4)

lemma fourth_power_AsDigit:
  "cube_wf s \<Longrightarrow> m \<in> set validMoves \<Longrightarrow>
     applyMoveToCubeState AsDigit m (applyMoveToCubeState AsDigit m
       (applyMoveToCubeState AsDigit m (applyMoveToCubeState AsDigit m s))) = s"
  by (auto simp: validMoves_cases apply_simps case_order4 case_order4_AsDigit)

text \<open>No smaller power is the identity: one, two and three turns move the solved cube.\<close>

lemma smaller_powers_AsDigit:
  assumes "m \<in> set validMoves"
  shows "applyMoveToCubeState AsDigit m solvedState \<noteq> solvedState"
    and "applyMoveToCubeState AsDigit m (applyMoveToCubeState AsDigit m solvedState) \<noteq> solvedState"
    and "applyMoveToCubeState AsDigit m (applyMoveToCubeState AsDigit m
           (applyMoveToCubeState AsDigit m solvedState)) \<noteq> solvedState"
  using assms
  by (auto simp: validMoves_cases apply_simps move_defs solvedState_explicit)

lemma mset_wellFormedMoves:
  "cube_wf s \<Longrightarrow> m \<in> set wellFormedMoves \<Longrightarrow>
     mset (facelets (applyMoveToCubeState rd m s)) = mset (facelets s)"
  by (auto simp: wellFormedMoves_cases apply_simps case_mset)

lemma mset_AsDigit:
  "cube_wf s \<Longrightarrow> m \<in> set validMoves \<Longrightarrow>
     mset (facelets (applyMoveToCubeState AsDigit m s)) = mset (facelets s)"
  by (auto simp: validMoves_cases apply_simps case_mset case_mset_AsDigit)

lemma colorCount_mset: "colorCount c s = count (mset (facelets s)) c"
  by (simp add: colorCount_def count_mset)

lemma colorBalanced_AsDigit:
  assumes "cube_wf s" and "m \<in> set validMoves" and "colorBalanced s"
  shows "colorBalanced (applyMoveToCubeState AsDigit m s)"
  using assms by (simp add: colorBalanced_def colorCount_mset mset_AsDigit)

lemma colorBalanced_wellFormedMoves:
  assumes "cube_wf s" and "m \<in> set wellFormedMoves" and "colorBalanced s"
  shows "colorBalanced (applyMoveToCubeState rd m s)"
  using assms by (simp add: colorBalanced_def colorCount_mset mset_wellFormedMoves)

subsection \<open>The session functions\<close>

lemma playMoves_cubeState:
  "cubeState (playMoves rd ms s) = fold (applyMoveToCubeState rd) ms (cubeState s)"
  by (induction ms arbitrary: s) simp_all

lemma playMoves_moveHistory: "moveHistory (playMoves rd ms s) = moveHistory s @ ms"
  by (induction ms arbitrary: s) simp_all

lemma playMoves_isSolved: "isSolved (playMoves rd ms s) = isSolved s"
  by (induction ms arbitrary: s) simp_all

lemma playMoves_isAnimating: "isAnimating (playMoves rd ms s) = isAnimating s"
  by (induction ms arbitrary: s) simp_all

lemma scrambleCube_initial:
  "cubeState (scrambleCube rd initialSession)
     = fold (applyMoveToCubeState rd) scrambleSequence solvedState"
  "isSolved (scrambleCube rd initialSession)
     = checkSolved (fold (applyMoveToCubeState rd) scrambleSequence solvedState)"
  "isAnimating (scrambleCube rd initialSession) = False"
  "moveHistory (scrambleCube rd initialSession) = scrambleSequence"
  by (simp_all add: scrambleCube_def Let_def initialSession_def playMoves_cubeState
      playMoves_moveHistory)

lemma solveCube_fields:
  "\<not> isAnimating s \<Longrightarrow> \<not> isSolved s \<Longrightarrow>
     cubeState (solveCube rd s) = fold (applyMoveToCubeState rd) solutionSequence (cubeState s)"
  "\<not> isAnimating s \<Longrightarrow> \<not> isSolved s \<Longrightarrow>
     isSolved (solveCube rd s)
       = checkSolved (fold (applyMoveToCubeState rd) solutionSequence (cubeState s))"
  by (simp_all add: solveCube_def Let_def playMoves_cubeState)

text \<open>The fixed scramble and the fixed solution sequence, evaluated under each reading.\<close>

lemma fold_scramble_AsDigit:
  "fold (applyMoveToCubeState AsDigit) scrambleSequence solvedState = scrambledState"
  by (simp add: scrambleSequence_def solvedState_explicit scrambledState_def apply_simps move_defs)

lemma fold_solution_AsDigit:
  "fold (applyMoveToCubeState AsDigit) solutionSequence scrambledState =
     \<lparr> U = [3, 5, 4, 2, 0, 5, 2, 4, 1], D = [5, 4, 0, 1, 1, 0, 1, 1, 0],
       F = [4, 1, 2, 2, 2, 2, 2, 3, 3], B = [2, 0, 4, 0, 3, 3, 3, 3, 3],
       R = [5, 2, 0, 1, 4, 4, 4, 3, 5], L = [1, 0, 1, 5, 5, 4, 5, 5, 0] \<rparr>"
  by (simp add: solutionSequence_def scrambledState_def apply_simps move_defs)

lemma fold_scramble_NoElement:
  "fold (applyMoveToCubeState NoElement) scrambleSequence solvedState = scrambledStateNoElement"
  by (simp add: scrambleSequence_def solvedState_explicit scrambledStateNoElement_def
      apply_simps move_defs)

lemma fold_solution_NoElement:
  "fold (applyMoveToCubeState NoElement) solutionSequence scrambledStateNoElement =
     \<lparr> U = [3, 3, 4, 2, 0, 5, 2, 4, 1], D = [5, 4, 0, 1, 1, 3, 1, 1, 0],
       F = [4, 3, 2, 2, 2, 3, 2, 3, 3], B = [2, 4, 4, 0, 3, 3, 3, 3, 3],
       R = [5, 2, 0, 4, 4, 4, 4, 4, 5], L = [1, 3, 1, 5, 5, 4, 5, 5, 0] \<rparr>"
  by (simp add: solutionSequence_def scrambledStateNoElement_def apply_simps move_defs)

lemmas checkSolved_eval = checkSolved_def faceEquals_def upt_0_9 solvedState_explicit

text \<open>
  Under \<open>AsDigit\<close> the inverse symbols of the scramble in reverse order do restore the
  solved state.
\<close>

lemma fold_inverse_scramble_AsDigit:
  "fold (applyMoveToCubeState AsDigit) (map inverseMove (rev scrambleSequence)) scrambledState
     = solvedState"
  by (simp add: scrambleSequence_def inverseMove_simps scrambledState_def solvedState_explicit
      apply_simps move_defs)

section \<open>The claims\<close>

text \<open>
  C1. Claimed: from the solved state, after the scramble sequence
  \<^verbatim>\<open>R U R' U' F R F' R' U R U' R' F' U' F\<close> and a replay of the solution sequence
  of \<^verbatim>\<open>solveCube\<close>, the cube is solved. The program does not get there: the scramble
  leaves an unsolved cube, \<^verbatim>\<open>solveCube\<close> replays its fixed eighteen moves, and both the
  flag \<^verbatim>\<open>isSolved\<close> and \<^verbatim>\<open>checkSolved\<close> on the resulting cube are false. This is so
  under both readings of the three malformed statements; the first four conjuncts are
  the reading \<open>AsDigit\<close>, the last four the reading \<open>NoElement\<close>. (Under \<open>AsDigit\<close> the
  inverse symbols of the scramble in reverse order would solve it, lemma
  \<open>fold_inverse_scramble_AsDigit\<close>.)
\<close>

theorem scramble_then_solveCube_unsolved:
  "isSolved (scrambleCube AsDigit initialSession) = False
   \<and> isSolved (solveCube AsDigit (scrambleCube AsDigit initialSession)) = False
   \<and> checkSolved (cubeState (solveCube AsDigit (scrambleCube AsDigit initialSession))) = False
   \<and> cubeState (solveCube AsDigit (scrambleCube AsDigit initialSession)) =
       \<lparr> U = [3, 5, 4, 2, 0, 5, 2, 4, 1], D = [5, 4, 0, 1, 1, 0, 1, 1, 0],
         F = [4, 1, 2, 2, 2, 2, 2, 3, 3], B = [2, 0, 4, 0, 3, 3, 3, 3, 3],
         R = [5, 2, 0, 1, 4, 4, 4, 3, 5], L = [1, 0, 1, 5, 5, 4, 5, 5, 0] \<rparr>
   \<and> isSolved (scrambleCube NoElement initialSession) = False
   \<and> isSolved (solveCube NoElement (scrambleCube NoElement initialSession)) = False
   \<and> checkSolved (cubeState (solveCube NoElement (scrambleCube NoElement initialSession))) = False
   \<and> cubeState (solveCube NoElement (scrambleCube NoElement initialSession)) =
       \<lparr> U = [3, 3, 4, 2, 0, 5, 2, 4, 1], D = [5, 4, 0, 1, 1, 3, 1, 1, 0],
         F = [4, 3, 2, 2, 2, 3, 2, 3, 3], B = [2, 4, 4, 0, 3, 3, 3, 3, 3],
         R = [5, 2, 0, 4, 4, 4, 4, 4, 5], L = [1, 3, 1, 5, 5, 4, 5, 5, 0] \<rparr>"
proof -
  let ?a = "scrambleCube AsDigit initialSession"
  let ?n = "scrambleCube NoElement initialSession"
  have a1: "\<not> isAnimating ?a" and a2: "\<not> isSolved ?a"
    by (simp_all add: scrambleCube_initial fold_scramble_AsDigit)
       (simp add: checkSolved_eval scrambledState_def)
  have a3: "cubeState (solveCube AsDigit ?a) =
       \<lparr> U = [3, 5, 4, 2, 0, 5, 2, 4, 1], D = [5, 4, 0, 1, 1, 0, 1, 1, 0],
         F = [4, 1, 2, 2, 2, 2, 2, 3, 3], B = [2, 0, 4, 0, 3, 3, 3, 3, 3],
         R = [5, 2, 0, 1, 4, 4, 4, 3, 5], L = [1, 0, 1, 5, 5, 4, 5, 5, 0] \<rparr>"
    using a1 a2
    by (simp add: solveCube_fields(1) scrambleCube_initial(1) fold_scramble_AsDigit
        fold_solution_AsDigit)
  have a4: "checkSolved (cubeState (solveCube AsDigit ?a)) = False"
    unfolding a3 by (simp add: checkSolved_eval)
  have a5: "isSolved (solveCube AsDigit ?a) = False"
    using a1 a2 a4 by (simp add: solveCube_fields)
  have n1: "\<not> isAnimating ?n" and n2: "\<not> isSolved ?n"
    by (simp_all add: scrambleCube_initial fold_scramble_NoElement)
       (simp add: checkSolved_eval scrambledStateNoElement_def)
  have n3: "cubeState (solveCube NoElement ?n) =
       \<lparr> U = [3, 3, 4, 2, 0, 5, 2, 4, 1], D = [5, 4, 0, 1, 1, 3, 1, 1, 0],
         F = [4, 3, 2, 2, 2, 3, 2, 3, 3], B = [2, 4, 4, 0, 3, 3, 3, 3, 3],
         R = [5, 2, 0, 4, 4, 4, 4, 4, 5], L = [1, 3, 1, 5, 5, 4, 5, 5, 0] \<rparr>"
    using n1 n2
    by (simp add: solveCube_fields(1) scrambleCube_initial(1) fold_scramble_NoElement
        fold_solution_NoElement)
  have n4: "checkSolved (cubeState (solveCube NoElement ?n)) = False"
    unfolding n3 by (simp add: checkSolved_eval)
  have n5: "isSolved (solveCube NoElement ?n) = False"
    using n1 n2 n4 by (simp add: solveCube_fields)
  from a2 a3 a4 a5 n2 n3 n4 n5 show ?thesis
    by simp
qed



text \<open>
  C4. Claimed: \<^verbatim>\<open>checkSolved\<close> is true exactly when every facelet of every face equals
  the centre of its face, whatever colour the centre has. It is not: on the cube whose
  \<^verbatim>\<open>U\<close> face is all 1 and whose \<^verbatim>\<open>D\<close> face is all 0 every face equals its
  centre and \<^verbatim>\<open>checkSolved\<close> is false, since the comparison is with the fixed
  assignment of colours to faces.
\<close>

theorem checkSolved_center_relative_counterexample:
  "centerRelativeSolved recoloredState \<and> \<not> checkSolved recoloredState"
  by (simp add: centerRelativeSolved_def faceUniform_def checkSolved_def faceEquals_def
      recoloredState_def solvedState_explicit fill9_explicit upt_0_9)

text \<open>
  C4, amended. On a cube of six nine-element faces whose centres carry the colours of the
  fixed assignment (U 0, D 1, F 2, B 3, R 4, L 5), \<^verbatim>\<open>checkSolved\<close> is true exactly
  when every facelet of every face equals the centre of its face. Every legal state has
  these centres (lemma \<open>legal_centers\<close>).
\<close>

theorem checkSolved_center_relative_standard_centers:
  assumes "cube_wf s" and "centers s = [0, 1, 2, 3, 4, 5]"
  shows "checkSolved s = centerRelativeSolved s"
  using assms
  by (elim cube_wf_cases)
     (auto simp: centers_def checkSolved_def faceEquals_def centerRelativeSolved_def
        faceUniform_def solvedState_explicit upt_0_9)

theorem checkSolved_center_relative_standard_centers_witness:
  "cube_wf solvedState \<and> centers solvedState = [0, 1, 2, 3, 4, 5]
   \<and> checkSolved solvedState \<and> centerRelativeSolved solvedState"
  using checkSolved_center_relative_standard_centers [of solvedState]
  by (simp add: solvedState_wf)
     (simp add: centers_def solvedState_explicit centerRelativeSolved_def faceUniform_def upt_0_9)

text \<open>
  C5. Claimed: a symbol outside the twelve leaves the facelets unchanged and signals an
  \<^verbatim>\<open>InvalidMoveError\<close>. The first half holds, the second does not: \<^verbatim>\<open>applyMove("X")\<close>
  on the initial session returns normally (with \<^verbatim>\<open>"X"\<close> in the move history of that
  session), under either reading of the malformed statements.
\<close>

theorem applyMove_invalid_counterexample:
  "applyMove AsDigit ''X'' initialSession
     = Returned (initialSession \<lparr> moveHistory := [''X''] \<rparr>)
   \<and> applyMove NoElement ''X'' initialSession
     = Returned (initialSession \<lparr> moveHistory := [''X''] \<rparr>)"
  by (simp add: applyMove_def Let_def initialSession_def applyMoveToCubeState_def
      checkSolved_def faceEquals_def upt_0_9 solvedState_explicit)

text \<open>
  C5, amended. A symbol outside the twelve leaves the facelets unchanged and no error is
  signalled: \<^verbatim>\<open>applyMoveToCubeState\<close> gives back the cube as it was, and \<^verbatim>\<open>applyMove\<close>
  returns normally with the cube of the session unchanged.
\<close>

theorem applyMove_invalid_unchanged_no_error:
  assumes "m \<notin> set validMoves"
  shows "applyMoveToCubeState rd m s = s
         \<and> (\<exists>t. applyMove rd m sess = Returned t \<and> cubeState t = cubeState sess)"
  using assms by (simp add: apply_invalid applyMove_def Let_def)

theorem applyMove_invalid_unchanged_no_error_witness:
  "''X'' \<notin> set validMoves
   \<and> applyMoveToCubeState AsDigit ''X'' scrambledState = scrambledState
   \<and> (\<exists>t. applyMove AsDigit ''X'' initialSession = Returned t
            \<and> cubeState t = cubeState initialSession)"
  using applyMove_invalid_unchanged_no_error [of "''X''" AsDigit scrambledState initialSession]
  by (simp add: validMoves_def)


text \<open>
  C7. On a cube of six nine-element faces, each of the twelve moves leaves the centre
  facelet (index 4) of each of the six faces as it was. This holds under both readings of
  the three malformed statements: none of them is aimed at index 4.
\<close>

theorem move_preserves_centers:
  assumes "cube_wf s" and "m \<in> set validMoves"
  shows "centers (applyMoveToCubeState rd m s) = centers s"
  using assms(1) by (rule apply_centers)

theorem move_preserves_centers_witness:
  "cube_wf scrambledState \<and> sym_R' \<in> set validMoves
   \<and> centers (applyMoveToCubeState AsDigit sym_R' scrambledState) = [0, 1, 2, 3, 4, 5]
   \<and> centers (applyMoveToCubeState NoElement sym_R' scrambledState) = [0, 1, 2, 3, 4, 5]
   \<and> centers scrambledState = [0, 1, 2, 3, 4, 5]"
  using move_preserves_centers [of scrambledState sym_R' AsDigit]
        move_preserves_centers [of scrambledState sym_R' NoElement]
  by (simp add: scrambledState_wf validMoves_def)
     (simp add: centers_def scrambledState_def)

text \<open>
  C8. The state the program starts with, which is also the state \<^verbatim>\<open>resetCube\<close>
  assigns, passes \<^verbatim>\<open>checkSolved\<close>, and its faces are uniformly 0 on U, 1 on D, 2 on F,
  3 on B, 4 on R and 5 on L. The flag \<^verbatim>\<open>isSolved\<close> is true initially and after a reset
  (\<^verbatim>\<open>resetCube\<close> does nothing while an animation runs).
\<close>

theorem solved_state_is_solved:
  "checkSolved solvedState
   \<and> U solvedState = [0, 0, 0, 0, 0, 0, 0, 0, 0] \<and> D solvedState = [1, 1, 1, 1, 1, 1, 1, 1, 1]
   \<and> F solvedState = [2, 2, 2, 2, 2, 2, 2, 2, 2] \<and> B solvedState = [3, 3, 3, 3, 3, 3, 3, 3, 3]
   \<and> R solvedState = [4, 4, 4, 4, 4, 4, 4, 4, 4] \<and> L solvedState = [5, 5, 5, 5, 5, 5, 5, 5, 5]
   \<and> cubeState initialSession = solvedState \<and> isSolved initialSession
   \<and> (\<not> isAnimating sess \<longrightarrow>
        cubeState (resetCube sess) = solvedState \<and> isSolved (resetCube sess))"
  by (simp add: checkSolved_def faceEquals_def upt_0_9 solvedState_explicit initialSession_def
      resetCube_def)

theorem solved_state_is_solved_witness:
  "\<not> isAnimating (scrambleCube AsDigit initialSession)
   \<and> cubeState (scrambleCube AsDigit initialSession) \<noteq> solvedState
   \<and> cubeState (resetCube (scrambleCube AsDigit initialSession)) = solvedState
   \<and> isSolved (resetCube (scrambleCube AsDigit initialSession))
   \<and> checkSolved (cubeState (resetCube (scrambleCube AsDigit initialSession)))"
  using solved_state_is_solved [of "scrambleCube AsDigit initialSession"]
  by (simp add: scrambleCube_initial fold_scramble_AsDigit)
     (simp add: scrambledState_def solvedState_explicit)

text \<open>
  C9. On a cube of six nine-element faces, \<^verbatim>\<open>checkSolved\<close> is true exactly when the
  cube is the one fixed configuration with U all 0, D all 1, F all 2, B all 3, R all 4 and
  L all 5; on every other cube, uniformly coloured faces in another assignment included,
  it is false.
\<close>

theorem checkSolved_iff_fixed_configuration:
  assumes "cube_wf s"
  shows "checkSolved s = (s = solvedState)"
  using assms
  by (elim cube_wf_cases)
     (auto simp: checkSolved_def faceEquals_def solvedState_explicit upt_0_9)

theorem checkSolved_iff_fixed_configuration_witness:
  "cube_wf recoloredState \<and> recoloredState \<noteq> solvedState \<and> \<not> checkSolved recoloredState"
  using checkSolved_iff_fixed_configuration [of recoloredState]
  by (simp add: recoloredState_wf)
     (simp add: recoloredState_def solvedState_explicit fill9_explicit)

text \<open>
  C10. On a cube of six nine-element faces the move \<^verbatim>\<open>U\<close> leaves the whole \<^verbatim>\<open>D\<close>
  face and the entries 3 to 8 of \<^verbatim>\<open>F\<close>, \<^verbatim>\<open>R\<close>, \<^verbatim>\<open>B\<close> and \<^verbatim>\<open>L\<close> as they were: it
  changes at most the \<^verbatim>\<open>U\<close> face and the entries 0, 1, 2 of the four side faces. The
  branch \<^verbatim>\<open>U\<close> holds no malformed statement, so the reading plays no part.
\<close>

theorem move_U_frame:
  assumes "cube_wf s"
  shows "D (applyMoveToCubeState rd sym_U s) = D s
         \<and> drop 3 (F (applyMoveToCubeState rd sym_U s)) = drop 3 (F s)
         \<and> drop 3 (R (applyMoveToCubeState rd sym_U s)) = drop 3 (R s)
         \<and> drop 3 (B (applyMoveToCubeState rd sym_U s)) = drop 3 (B s)
         \<and> drop 3 (L (applyMoveToCubeState rd sym_U s)) = drop 3 (L s)"
  using assms by (elim cube_wf_cases) (simp add: apply_simps move_defs)

theorem move_U_frame_witness:
  "cube_wf scrambledState
   \<and> D (applyMoveToCubeState AsDigit sym_U scrambledState) = [1, 1, 4, 1, 1, 0, 1, 1, 2]
   \<and> drop 3 (F (applyMoveToCubeState AsDigit sym_U scrambledState)) = [2, 2, 5, 2, 2, 3]
   \<and> drop 3 (R (applyMoveToCubeState AsDigit sym_U scrambledState)) = [0, 4, 4, 1, 3, 0]
   \<and> drop 3 (B (applyMoveToCubeState AsDigit sym_U scrambledState)) = [3, 3, 3, 4, 3, 3]
   \<and> drop 3 (L (applyMoveToCubeState AsDigit sym_U scrambledState)) = [5, 5, 5, 5, 5, 5]"
  using move_U_frame [of scrambledState AsDigit]
  by (simp add: scrambledState_wf) (simp add: scrambledState_def)

end
